theory Spec2Isabelle
  imports Main
begin

section \<open>The MCP approval handshake of the two sample scripts\<close>

text \<open>
  The repository holds two Python scripts, \<^verbatim>\<open>mcp-custom-create.py\<close> and
  \<^verbatim>\<open>mcp-microsoft-learn-existing.py\<close>. Each one reads its configuration from
  \<^verbatim>\<open>os.environ\<close>, opens a credential and two clients in a \<^verbatim>\<open>with\<close> statement,
  creates or retrieves an agent, creates a conversation, submits a prompt, scans the
  response for MCP approval requests, and submits the approvals it collected.

  The embedding follows the scripts statement by statement. What a script does to the
  outside world is a transcript of events (collaborator calls with what they returned or
  raised, console lines, and the exits of the \<^verbatim>\<open>with\<close> statement); what the
  outside world answers is a parameter, a record of functions, one for each call of the SDK.
  An exception is the left injection of a sum.
\<close>

subsection \<open>Python values, objects and exceptions\<close>

text \<open>
  The attributes the scan reads (\<^verbatim>\<open>item.type\<close>, \<^verbatim>\<open>item.server_label\<close>,
  \<^verbatim>\<open>item.id\<close>) hold a string or \<^verbatim>\<open>None\<close>. An output item is an object of one of
  several SDK classes with different attributes, so it is a finite map from attribute names to
  values, and reading an attribute the object does not have raises \<^verbatim>\<open>AttributeError\<close>.
\<close>

datatype pyval = PStr string | PNone

type_synonym pyobj = "string \<rightharpoonup> pyval"

datatype error =
    KeyError string
  | AttributeError string
  | TypeError string
  | RemoteCallError string

definition getattr :: "pyobj \<Rightarrow> string \<Rightarrow> error + pyval" where
  "getattr obj a = (case obj a of None \<Rightarrow> Inl (AttributeError a) | Some v \<Rightarrow> Inr v)"

text \<open>Truth value of \<^verbatim>\<open>item.id\<close> in a condition: a non-empty string is true, the
  empty string and \<^verbatim>\<open>None\<close> are false.\<close>

fun truthy :: "pyval \<Rightarrow> bool" where
  "truthy (PStr s) = (s \<noteq> [])"
| "truthy PNone = False"

text \<open>\<^verbatim>\<open>os.environ[key]\<close>, after \<^verbatim>\<open>load_dotenv()\<close> has run: a missing key raises
  \<^verbatim>\<open>KeyError\<close>.\<close>

type_synonym environ = "string \<rightharpoonup> string"

definition os_environ :: "environ \<Rightarrow> string \<Rightarrow> error + string" where
  "os_environ env key = (case env key of None \<Rightarrow> Inl (KeyError key) | Some v \<Rightarrow> Inr v)"

subsection \<open>The SDK's data\<close>

text \<open>\<^verbatim>\<open>McpApprovalResponse\<close>, the dictionary appended to \<^verbatim>\<open>input_list\<close>.\<close>

record mcp_approval_response =
  type :: string
  approve :: bool
  approval_request_id :: pyval

text \<open>A response: \<^verbatim>\<open>response.id\<close>, \<^verbatim>\<open>response.output\<close>,
  \<^verbatim>\<open>response.output_text\<close> (the field for \<^verbatim>\<open>id\<close> is named \<open>response_id\<close>,
  since \<open>id\<close> is the identity function of HOL).\<close>

record response =
  response_id :: string
  "output" :: "pyobj list"
  output_text :: string

subsection \<open>The approval filter loops\<close>

text \<open>
  \<^verbatim>\<open>mcp-custom-create.py\<close>, lines 75 to 85: the body of the \<^verbatim>\<open>for\<close> loop, run on
  one item with the current \<^verbatim>\<open>input_list\<close>. The nested \<^verbatim>\<open>if\<close> and the
  short-circuit \<^verbatim>\<open>and\<close> fix the order in which the attributes are read.
\<close>

definition custom_create_item ::
  "pyobj \<Rightarrow> mcp_approval_response list \<Rightarrow> error + mcp_approval_response list" where
  "custom_create_item item input_list =
     (case getattr item ''type'' of
        Inl e \<Rightarrow> Inl e
      | Inr ty \<Rightarrow>
          if ty = PStr ''mcp_approval_request'' then
            (case getattr item ''server_label'' of
               Inl e \<Rightarrow> Inl e
             | Inr lbl \<Rightarrow>
                 if lbl = PStr ''custom-mcp-bearer'' then
                   (case getattr item ''id'' of
                      Inl e \<Rightarrow> Inl e
                    | Inr i \<Rightarrow>
                        if truthy i then
                          Inr (input_list @
                               [\<lparr>type = ''mcp_approval_response'', approve = True,
                                 approval_request_id = i\<rparr>])
                        else Inr input_list)
                 else Inr input_list)
          else Inr input_list)"

fun custom_create_loop ::
  "pyobj list \<Rightarrow> mcp_approval_response list \<Rightarrow> error + mcp_approval_response list" where
  "custom_create_loop [] input_list = Inr input_list"
| "custom_create_loop (item # items) input_list =
     (case custom_create_item item input_list of
        Inl e \<Rightarrow> Inl e
      | Inr input_list' \<Rightarrow> custom_create_loop items input_list')"

text \<open>\<^verbatim>\<open>mcp-microsoft-learn-existing.py\<close>, lines 60 to 71.\<close>

definition learn_existing_item ::
  "pyobj \<Rightarrow> mcp_approval_response list \<Rightarrow> error + mcp_approval_response list" where
  "learn_existing_item item input_list =
     (case getattr item ''type'' of
        Inl e \<Rightarrow> Inl e
      | Inr ty \<Rightarrow>
          if ty = PStr ''mcp_approval_request'' then
            (case getattr item ''server_label'' of
               Inl e \<Rightarrow> Inl e
             | Inr lbl \<Rightarrow>
                 if lbl = PStr ''microsoft-learn-mcp'' then
                   (case getattr item ''id'' of
                      Inl e \<Rightarrow> Inl e
                    | Inr i \<Rightarrow>
                        if truthy i then
                          Inr (input_list @
                               [\<lparr>type = ''mcp_approval_response'', approve = True,
                                 approval_request_id = i\<rparr>])
                        else Inr input_list)
                 else Inr input_list)
          else Inr input_list)"

fun learn_existing_loop ::
  "pyobj list \<Rightarrow> mcp_approval_response list \<Rightarrow> error + mcp_approval_response list" where
  "learn_existing_loop [] input_list = Inr input_list"
| "learn_existing_loop (item # items) input_list =
     (case learn_existing_item item input_list of
        Inl e \<Rightarrow> Inl e
      | Inr input_list' \<Rightarrow> learn_existing_loop items input_list')"

subsection \<open>Agents, conversations and requests\<close>

text \<open>The objects the agent service and the response service hand back. The scripts read
  \<^verbatim>\<open>agent.id\<close>, \<^verbatim>\<open>agent.name\<close>, \<^verbatim>\<open>agent.versions.latest.version\<close> and
  \<^verbatim>\<open>conversation.id\<close>.\<close>

record agent =
  agent_id :: string
  agent_name :: string
  agent_latest_version :: string

record conversation =
  conversation_id :: string

text \<open>\<^verbatim>\<open>MCPTool(...)\<close> and \<^verbatim>\<open>PromptAgentDefinition(...)\<close> of
  \<^verbatim>\<open>mcp-custom-create.py\<close>, lines 44 to 58.\<close>

record mcp_tool =
  server_label :: string
  server_url :: string
  require_approval :: string
  headers :: "(string \<times> string) list"

record prompt_agent_definition =
  model :: string
  instructions :: string
  tools :: "mcp_tool list"

text \<open>The keyword arguments of \<^verbatim>\<open>openai_client.responses.create\<close>. An argument the
  call does not pass is \<open>None\<close>. \<open>extra_body\<close> is the agent reference
  \<^verbatim>\<open>{"agent": {"name": ..., "type": ...}}\<close>.\<close>

datatype response_input = Text string | Items "mcp_approval_response list"

record agent_reference =
  name :: string
  reference_type :: string

record response_request =
  conversation :: "string option"
  "input" :: response_input
  previous_response_id :: "string option"
  extra_body :: agent_reference

subsection \<open>Collaborators and the transcript\<close>

text \<open>The handles of the three context managers of the \<^verbatim>\<open>with\<close> statement.\<close>

datatype credential = Credential nat
datatype project_client = ProjectClient nat
datatype openai_client = OpenAIClient nat

text \<open>What the collaborators answer: each one returns a value or raises.\<close>

record services =
  DefaultAzureCredential :: "error + credential"
  AIProjectClient :: "string \<Rightarrow> credential \<Rightarrow> error + project_client"
  get_openai_client :: "project_client \<Rightarrow> error + openai_client"
  agents_create_version ::
    "project_client \<Rightarrow> string \<Rightarrow> prompt_agent_definition \<Rightarrow> error + agent"
  agents_get :: "project_client \<Rightarrow> string \<Rightarrow> error + agent"
  conversations_create :: "openai_client \<Rightarrow> error + conversation"
  responses_create :: "openai_client \<Rightarrow> response_request \<Rightarrow> error + response"

datatype call =
    NewCredential
  | NewProjectClient string credential
  | GetOpenAIClient project_client
  | AgentsCreateVersion project_client string prompt_agent_definition
  | AgentsGet project_client string
  | ConversationsCreate openai_client
  | ResponsesCreate openai_client response_request

datatype reply =
    RCredential credential
  | RProjectClient project_client
  | ROpenAIClient openai_client
  | RAgent agent
  | RConversation conversation
  | RResponse response

datatype console =
    AgentCreated string string
  | AgentRetrieved string string string
  | CreatedConversation string
  | FinalInputHeading
  | FinalInput "mcp_approval_response list"
  | AgentResponse string

datatype resource = CredentialCtx | ProjectClientCtx | OpenAIClientCtx

datatype event =
    Call call "error + reply"
  | Print console
  | Exit resource

text \<open>A statement of a script takes the transcript so far and returns the transcript
  extended, with the value it computed or the exception it raised.\<close>

type_synonym 'a prog = "event list \<Rightarrow> event list \<times> (error + 'a)"

definition local_step :: "error + 'a \<Rightarrow> 'a prog" where
  "local_step r t = (t, r)"

definition remote :: "call \<Rightarrow> ('a \<Rightarrow> reply) \<Rightarrow> error + 'a \<Rightarrow> 'a prog" where
  "remote c wrap r t = (t @ [Call c (map_sum (\<lambda>e. e) wrap r)], r)"

definition print :: "console \<Rightarrow> unit prog" where
  "print line t = (t @ [Print line], Inr ())"

text \<open>Sequencing: an exception of the first statement skips the rest.\<close>

definition then_do :: "'a prog \<Rightarrow> ('a \<Rightarrow> 'b prog) \<Rightarrow> 'b prog" where
  "then_do m k t = (case m t of (t', Inl e) \<Rightarrow> (t', Inl e) | (t', Inr v) \<Rightarrow> k v t')"

text \<open>One item of a \<^verbatim>\<open>with\<close> statement: when the context expression raises, the body
  does not run; otherwise the body runs and the context is left on every path, and the
  outcome of the body, value or exception, is passed on.\<close>

definition with_as :: "'r prog \<Rightarrow> resource \<Rightarrow> ('r \<Rightarrow> 'a prog) \<Rightarrow> 'a prog" where
  "with_as acquire res body t =
     (case acquire t of
        (t', Inl e) \<Rightarrow> (t', Inl e)
      | (t', Inr r) \<Rightarrow> (case body r t' of (t'', out) \<Rightarrow> (t'' @ [Exit res], out)))"

subsection \<open>The two scripts\<close>

text \<open>The reference to the agent that both \<^verbatim>\<open>responses.create\<close> calls pass in
  \<^verbatim>\<open>extra_body\<close>.\<close>

definition agent_ref :: "agent \<Rightarrow> agent_reference" where
  "agent_ref agent = \<lparr>name = agent_name agent, reference_type = ''agent_reference''\<rparr>"

text \<open>The first \<^verbatim>\<open>responses.create\<close> call (lines 67 to 71 and 52 to 56): it passes
  \<^verbatim>\<open>conversation\<close>, \<^verbatim>\<open>input\<close> and \<^verbatim>\<open>extra_body\<close>.\<close>

definition submit_prompt ::
  "services \<Rightarrow> openai_client \<Rightarrow> conversation \<Rightarrow> string \<Rightarrow> agent \<Rightarrow> response prog" where
  "submit_prompt svc openai_client conv prompt agent =
     (let request = \<lparr>conversation = Some (conversation_id conv), input = Text prompt,
                      previous_response_id = None, extra_body = agent_ref agent\<rparr>
      in remote (ResponsesCreate openai_client request) RResponse
           (responses_create svc openai_client request))"

text \<open>The second \<^verbatim>\<open>responses.create\<close> call (lines 92 to 96 and 78 to 82), the same
  text in both scripts: it passes \<^verbatim>\<open>input\<close>, \<^verbatim>\<open>previous_response_id\<close> and
  \<^verbatim>\<open>extra_body\<close>, under no condition on \<^verbatim>\<open>input_list\<close>.\<close>

definition resubmit ::
  "services \<Rightarrow> openai_client \<Rightarrow> mcp_approval_response list \<Rightarrow> response \<Rightarrow> agent
     \<Rightarrow> response prog" where
  "resubmit svc openai_client input_list response agent =
     (let request = \<lparr>conversation = None, input = Items input_list,
                      previous_response_id = Some (response_id response),
                      extra_body = agent_ref agent\<rparr>
      in remote (ResponsesCreate openai_client request) RResponse
           (responses_create svc openai_client request))"

text \<open>\<^verbatim>\<open>mcp-custom-create.py\<close>, lines 44 to 49: the tool declaration, with the bearer
  token read from the environment.\<close>

definition tool_declaration :: "string \<Rightarrow> mcp_tool" where
  "tool_declaration token =
     \<lparr>server_label = ''custom-mcp-bearer'',
      server_url = ''https://app-ext-eus2-mcp-profx-01.azurewebsites.net/mcp'',
      require_approval = ''never'',
      headers = [(''Authorization'', ''Bearer '' @ token)]\<rparr>"

text \<open>Lines 54 to 58: the definition passed to \<^verbatim>\<open>create_version\<close>.\<close>

definition agent_definition :: "string \<Rightarrow> mcp_tool \<Rightarrow> prompt_agent_definition" where
  "agent_definition deployment mcp_tool =
     \<lparr>model = deployment,
      instructions = ''Always use the configured MCP tools when answering queries'',
      tools = [mcp_tool]\<rparr>"

text \<open>The body of the \<^verbatim>\<open>with\<close> statement (lines 43 to 98). The arguments of
  \<^verbatim>\<open>create_version\<close> are evaluated before the call, so a missing
  \<^verbatim>\<open>AZURE_AI_MODEL_DEPLOYMENT_NAME\<close> raises before it.\<close>

definition custom_create_body ::
  "environ \<Rightarrow> services \<Rightarrow> project_client \<Rightarrow> openai_client \<Rightarrow> unit prog" where
  "custom_create_body env svc project_client openai_client =
     then_do (local_step (os_environ env ''CUSTOM_MCP_BEARER_TOKEN'')) (\<lambda>token.
     then_do (local_step (Inr (tool_declaration token))) (\<lambda>mcp_tool.
     then_do (local_step (os_environ env ''AZURE_AI_MODEL_DEPLOYMENT_NAME'')) (\<lambda>deployment.
     then_do (remote (AgentsCreateVersion project_client ''FoundryNew-MCP-CustomAgent''
                        (agent_definition deployment mcp_tool))
                RAgent
                (agents_create_version svc project_client ''FoundryNew-MCP-CustomAgent''
                   (agent_definition deployment mcp_tool)))
       (\<lambda>agent.
     then_do (print (AgentCreated (agent_id agent) (agent_name agent))) (\<lambda>_.
     then_do (remote (ConversationsCreate openai_client) RConversation
                (conversations_create svc openai_client)) (\<lambda>conv.
     then_do (print (CreatedConversation (conversation_id conv))) (\<lambda>_.
     then_do (submit_prompt svc openai_client conv ''multiply 10 and 20'' agent) (\<lambda>response.
     then_do (local_step (custom_create_loop (output response) [])) (\<lambda>input_list.
     then_do (print FinalInputHeading) (\<lambda>_.
     then_do (print (FinalInput input_list)) (\<lambda>_.
     then_do (resubmit svc openai_client input_list response agent) (\<lambda>response'.
     print (AgentResponse (output_text response'))))))))))))))"

text \<open>The whole script: line 36, then the three context managers of lines 38 to 42.\<close>

definition mcp_custom_create :: "environ \<Rightarrow> services \<Rightarrow> unit prog" where
  "mcp_custom_create env svc =
     then_do (local_step (os_environ env ''AZURE_AI_PROJECT_ENDPOINT'')) (\<lambda>endpoint.
     with_as (remote NewCredential RCredential (DefaultAzureCredential svc)) CredentialCtx
       (\<lambda>cred.
     with_as (remote (NewProjectClient endpoint cred) RProjectClient
                (AIProjectClient svc endpoint cred)) ProjectClientCtx
       (\<lambda>project_client.
     with_as (remote (GetOpenAIClient project_client) ROpenAIClient
                (get_openai_client svc project_client)) OpenAIClientCtx
       (\<lambda>openai_client.
     custom_create_body env svc project_client openai_client))))"

text \<open>\<^verbatim>\<open>mcp-microsoft-learn-existing.py\<close>, the body of the \<^verbatim>\<open>with\<close> statement
  (lines 43 to 84).\<close>

definition learn_existing_body ::
  "services \<Rightarrow> string \<Rightarrow> project_client \<Rightarrow> openai_client \<Rightarrow> unit prog" where
  "learn_existing_body svc the_agent_name project_client openai_client =
     then_do (remote (AgentsGet project_client the_agent_name) RAgent
                (agents_get svc project_client the_agent_name)) (\<lambda>agent.
     then_do (print (AgentRetrieved (agent_id agent) (agent_name agent)
                       (agent_latest_version agent))) (\<lambda>_.
     then_do (remote (ConversationsCreate openai_client) RConversation
                (conversations_create svc openai_client)) (\<lambda>conv.
     then_do (print (CreatedConversation (conversation_id conv))) (\<lambda>_.
     then_do (submit_prompt svc openai_client conv
                ''Please summarize latest features of Azure Cosmos DB from Microsoft Learn.''
                agent) (\<lambda>response.
     then_do (local_step (learn_existing_loop (output response) [])) (\<lambda>input_list.
     then_do (print FinalInputHeading) (\<lambda>_.
     then_do (print (FinalInput input_list)) (\<lambda>_.
     then_do (resubmit svc openai_client input_list response agent) (\<lambda>response'.
     print (AgentResponse (output_text response')))))))))))"

text \<open>The whole script: lines 35 and 36, then the context managers of lines 38 to 42.\<close>

definition mcp_microsoft_learn_existing :: "environ \<Rightarrow> services \<Rightarrow> unit prog" where
  "mcp_microsoft_learn_existing env svc =
     then_do (local_step (os_environ env ''AZURE_AI_PROJECT_ENDPOINT'')) (\<lambda>endpoint.
     then_do (local_step (os_environ env ''AZURE_AI_AGENT_NAME'')) (\<lambda>the_agent_name.
     with_as (remote NewCredential RCredential (DefaultAzureCredential svc)) CredentialCtx
       (\<lambda>cred.
     with_as (remote (NewProjectClient endpoint cred) RProjectClient
                (AIProjectClient svc endpoint cred)) ProjectClientCtx
       (\<lambda>project_client.
     with_as (remote (GetOpenAIClient project_client) ROpenAIClient
                (get_openai_client svc project_client)) OpenAIClientCtx
       (\<lambda>openai_client.
     learn_existing_body svc the_agent_name project_client openai_client)))))"

subsection \<open>The scan on a store\<close>

text \<open>
  The loops above take the items as values, so by their type they cannot change an item,
  the response or the transcript. To state that the scan of the scripts changes nothing, the
  same lines are translated once more, over a world in which they could: a heap of objects
  and the transcript. An address is an index into the heap; an object is an SDK instance
  with its attributes, a list of references such as \<^verbatim>\<open>response.output\<close>, or a list of
  approvals such as \<^verbatim>\<open>input_list\<close>. Every read of an attribute is a read of the heap,
  \<^verbatim>\<open>input_list = []\<close> allocates a list and \<^verbatim>\<open>input_list.append\<close> writes it.
\<close>

type_synonym addr = nat

datatype obj =
    Instance pyobj
  | RefList "addr list"
  | DictList "mcp_approval_response list"

record world =
  heap :: "obj list"
  events :: "event list"

type_synonym 'a action = "world \<Rightarrow> world \<times> (error + 'a)"

definition returning :: "'a \<Rightarrow> 'a action" where
  "returning v w = (w, Inr v)"

definition and_then :: "'a action \<Rightarrow> ('a \<Rightarrow> 'b action) \<Rightarrow> 'b action" where
  "and_then m k w = (case m w of (w', Inl e) \<Rightarrow> (w', Inl e) | (w', Inr v) \<Rightarrow> k v w')"

definition cell_at :: "obj list \<Rightarrow> addr \<Rightarrow> obj option" where
  "cell_at h a = (if a < length h then Some (h ! a) else None)"

text \<open>The attributes of the object at an address. A list has none of the attributes the
  scan reads, so reading one of them from a list raises \<^verbatim>\<open>AttributeError\<close>, as it
  does from an instance that lacks it.\<close>

definition attributes :: "obj list \<Rightarrow> addr \<Rightarrow> pyobj" where
  "attributes h a = (case cell_at h a of Some (Instance attrs) \<Rightarrow> attrs | _ \<Rightarrow> Map.empty)"

definition read_attr :: "addr \<Rightarrow> string \<Rightarrow> pyval action" where
  "read_attr a attr w = (w, getattr (attributes (heap w) a) attr)"

text \<open>\<^verbatim>\<open>input_list = []\<close>: a new list object, at the next free address.\<close>

definition new_list :: "addr action" where
  "new_list w = (w\<lparr>heap := heap w @ [DictList []]\<rparr>, Inr (length (heap w)))"

text \<open>\<^verbatim>\<open>input_list.append(d)\<close>: the list object is changed in place.\<close>

definition list_append :: "addr \<Rightarrow> mcp_approval_response \<Rightarrow> unit action" where
  "list_append l d w =
     (case cell_at (heap w) l of
        Some (DictList ds) \<Rightarrow> (w\<lparr>heap := (heap w)[l := DictList (ds @ [d])]\<rparr>, Inr ())
      | _ \<Rightarrow> (w, Inl (AttributeError ''append'')))"

text \<open>\<^verbatim>\<open>for item in xs\<close>: the references the list holds; an object that is no list of
  references is not iterable. The body of the loops below never writes this list, so it is
  read once.\<close>

definition iterate :: "addr \<Rightarrow> addr list action" where
  "iterate a w =
     (case cell_at (heap w) a of
        Some (RefList refs) \<Rightarrow> (w, Inr refs)
      | _ \<Rightarrow> (w, Inl (TypeError ''object is not iterable'')))"

fun for_each :: "(addr \<Rightarrow> unit action) \<Rightarrow> addr list \<Rightarrow> unit action" where
  "for_each body [] = returning ()"
| "for_each body (item # items) = and_then (body item) (\<lambda>_. for_each body items)"

text \<open>\<^verbatim>\<open>mcp-custom-create.py\<close>, lines 76 to 85, on the item and the
  \<^verbatim>\<open>input_list\<close> at the given addresses.\<close>

definition custom_create_step :: "addr \<Rightarrow> addr \<Rightarrow> unit action" where
  "custom_create_step input_list item =
     and_then (read_attr item ''type'') (\<lambda>ty.
       if ty = PStr ''mcp_approval_request'' then
         and_then (read_attr item ''server_label'') (\<lambda>lbl.
           if lbl = PStr ''custom-mcp-bearer'' then
             and_then (read_attr item ''id'') (\<lambda>i.
               if truthy i then
                 list_append input_list
                   \<lparr>type = ''mcp_approval_response'', approve = True,
                    approval_request_id = i\<rparr>
               else returning ())
           else returning ())
       else returning ())"

text \<open>Lines 74 to 85, for the \<^verbatim>\<open>response.output\<close> at the given address; the value
  is the address of \<^verbatim>\<open>input_list\<close>.\<close>

definition custom_create_scan :: "addr \<Rightarrow> addr action" where
  "custom_create_scan response_output =
     and_then new_list (\<lambda>input_list.
     and_then (iterate response_output) (\<lambda>items.
     and_then (for_each (custom_create_step input_list) items) (\<lambda>_.
     returning input_list)))"

text \<open>\<^verbatim>\<open>mcp-microsoft-learn-existing.py\<close>, lines 61 to 71 and lines 59 to 71.\<close>

definition learn_existing_step :: "addr \<Rightarrow> addr \<Rightarrow> unit action" where
  "learn_existing_step input_list item =
     and_then (read_attr item ''type'') (\<lambda>ty.
       if ty = PStr ''mcp_approval_request'' then
         and_then (read_attr item ''server_label'') (\<lambda>lbl.
           if lbl = PStr ''microsoft-learn-mcp'' then
             and_then (read_attr item ''id'') (\<lambda>i.
               if truthy i then
                 list_append input_list
                   \<lparr>type = ''mcp_approval_response'', approve = True,
                    approval_request_id = i\<rparr>
               else returning ())
           else returning ())
       else returning ())"

definition learn_existing_scan :: "addr \<Rightarrow> addr action" where
  "learn_existing_scan response_output =
     and_then new_list (\<lambda>input_list.
     and_then (iterate response_output) (\<lambda>items.
     and_then (for_each (learn_existing_step input_list) items) (\<lambda>_.
     returning input_list)))"

text \<open>What a scan collected: the content of the list whose address it returned, or the
  exception it raised.\<close>

definition collected :: "world \<times> (error + addr) \<Rightarrow> error + mcp_approval_response list" where
  "collected outcome =
     (case snd outcome of
        Inl e \<Rightarrow> Inl e
      | Inr l \<Rightarrow>
          (case cell_at (heap (fst outcome)) l of
             Some (DictList ds) \<Rightarrow> Inr ds
           | _ \<Rightarrow> Inl (AttributeError ''append'')))"

text \<open>The items of a \<^verbatim>\<open>response.output\<close> on the heap, as the loops over values take
  them.\<close>

definition items_at :: "obj list \<Rightarrow> addr \<Rightarrow> error + pyobj list" where
  "items_at h a =
     (case cell_at h a of
        Some (RefList refs) \<Rightarrow> Inr (map (attributes h) refs)
      | _ \<Rightarrow> Inl (TypeError ''object is not iterable''))"

subsection \<open>The scan as the specification words it\<close>

text \<open>
  \<open>collect_approvals(response, expected_tool_label)\<close> of the specification, section 4.1:
  for each item of the output sequence, in order, an approval with \<open>approved = true\<close> for
  the item's request identifier if the item's tag is the approval request, its tool label
  equals the expected label and it carries a non-empty request identifier; nothing for any
  other item.
\<close>

definition wanted :: "string \<Rightarrow> pyobj \<Rightarrow> bool" where
  "wanted expected_tool_label item =
     (item ''type'' = Some (PStr ''mcp_approval_request'') \<and>
      item ''server_label'' = Some (PStr expected_tool_label) \<and>
      (case item ''id'' of Some (PStr s) \<Rightarrow> s \<noteq> [] | _ \<Rightarrow> False))"

definition approval_for :: "pyobj \<Rightarrow> mcp_approval_response" where
  "approval_for item =
     \<lparr>type = ''mcp_approval_response'', approve = True,
      approval_request_id = (case item ''id'' of Some i \<Rightarrow> i | None \<Rightarrow> PNone)\<rparr>"

definition collect_approvals :: "response \<Rightarrow> string \<Rightarrow> mcp_approval_response list" where
  "collect_approvals response expected_tool_label =
     concat (map (\<lambda>item. if wanted expected_tool_label item then [approval_for item] else [])
               (output response))"

text \<open>An output item as the SDK's classes declare it: every item has a \<^verbatim>\<open>type\<close>, and
  an item of type \<^verbatim>\<open>mcp_approval_request\<close> (class \<^verbatim>\<open>McpApprovalRequest\<close>) has
  the attributes \<^verbatim>\<open>server_label\<close> and \<^verbatim>\<open>id\<close>. The value of an attribute may
  still be \<^verbatim>\<open>None\<close> or the empty string.\<close>

definition well_typed_item :: "pyobj \<Rightarrow> bool" where
  "well_typed_item item =
     (item ''type'' \<noteq> None \<and>
      (item ''type'' = Some (PStr ''mcp_approval_request'') \<longrightarrow>
         item ''server_label'' \<noteq> None \<and> item ''id'' \<noteq> None))"

text \<open>The loop of the two scripts with the literal server label made a parameter.\<close>

definition approval_scan_item ::
  "string \<Rightarrow> pyobj \<Rightarrow> mcp_approval_response list \<Rightarrow> error + mcp_approval_response list" where
  "approval_scan_item label item input_list =
     (case getattr item ''type'' of
        Inl e \<Rightarrow> Inl e
      | Inr ty \<Rightarrow>
          if ty = PStr ''mcp_approval_request'' then
            (case getattr item ''server_label'' of
               Inl e \<Rightarrow> Inl e
             | Inr lbl \<Rightarrow>
                 if lbl = PStr label then
                   (case getattr item ''id'' of
                      Inl e \<Rightarrow> Inl e
                    | Inr i \<Rightarrow>
                        if truthy i then
                          Inr (input_list @
                               [\<lparr>type = ''mcp_approval_response'', approve = True,
                                 approval_request_id = i\<rparr>])
                        else Inr input_list)
                 else Inr input_list)
          else Inr input_list)"

fun approval_scan ::
  "string \<Rightarrow> pyobj list \<Rightarrow> mcp_approval_response list
     \<Rightarrow> error + mcp_approval_response list" where
  "approval_scan label [] input_list = Inr input_list"
| "approval_scan label (item # items) input_list =
     (case approval_scan_item label item input_list of
        Inl e \<Rightarrow> Inl e
      | Inr input_list' \<Rightarrow> approval_scan label items input_list')"

subsection \<open>Properties of a transcript\<close>

fun is_call :: "event \<Rightarrow> bool" where
  "is_call (Call c out) = True"
| "is_call ev = False"

text \<open>The calls that reach the agent service or the response service, as opposed to the
  construction of the credential and of the clients.\<close>

fun service_request :: "event \<Rightarrow> bool" where
  "service_request (Call NewCredential out) = False"
| "service_request (Call (NewProjectClient endpoint cred) out) = False"
| "service_request (Call (GetOpenAIClient pc) out) = False"
| "service_request (Call c out) = True"
| "service_request ev = False"

fun is_conversations_create :: "event \<Rightarrow> bool" where
  "is_conversations_create (Call (ConversationsCreate oc) out) = True"
| "is_conversations_create ev = False"

text \<open>The \<^verbatim>\<open>input\<close> and the \<^verbatim>\<open>conversation\<close> of every
  \<^verbatim>\<open>responses.create\<close> call of a transcript, in order.\<close>

fun submitted_inputs :: "event list \<Rightarrow> response_input list" where
  "submitted_inputs [] = []"
| "submitted_inputs (Call (ResponsesCreate oc req) out # t) = input req # submitted_inputs t"
| "submitted_inputs (ev # t) = submitted_inputs t"

fun submitted_conversations :: "event list \<Rightarrow> string option list" where
  "submitted_conversations [] = []"
| "submitted_conversations (Call (ResponsesCreate oc req) out # t) =
     conversation req # submitted_conversations t"
| "submitted_conversations (ev # t) = submitted_conversations t"

text \<open>A collaborator's exception is the outcome of the run, and no call follows it.\<close>

fun propagated :: "event list \<Rightarrow> error + 'a \<Rightarrow> bool" where
  "propagated [] res = True"
| "propagated (Call c (Inl e) # t) res = (res = Inl e \<and> filter is_call t = [])"
| "propagated (ev # t) res = propagated t res"

text \<open>Every approval submitted names a request of the output of the response that the
  latest \<^verbatim>\<open>responses.create\<close> call before it returned (\<open>prev\<close>), an approval request
  with the given server label.\<close>

fun justified :: "string \<Rightarrow> pyobj list \<Rightarrow> event list \<Rightarrow> bool" where
  "justified label prev [] = True"
| "justified label prev (Call (ResponsesCreate oc req) out # t) =
     ((case input req of
         Text prompt \<Rightarrow> True
       | Items approvals \<Rightarrow>
           (\<forall>a \<in> set approvals. \<exists>item \<in> set prev.
              item ''type'' = Some (PStr ''mcp_approval_request'') \<and>
              item ''server_label'' = Some (PStr label) \<and>
              item ''id'' = Some (approval_request_id a))) \<and>
      justified label (case out of Inr (RResponse r) \<Rightarrow> output r | _ \<Rightarrow> []) t)"
| "justified label prev (ev # t) = justified label prev t"

text \<open>After a prompt submission that returned a response on which the given loop
  succeeds, exactly one more call is made, and it submits what the loop collected.\<close>

fun resubmits_once ::
  "(pyobj list \<Rightarrow> mcp_approval_response list \<Rightarrow> error + mcp_approval_response list)
     \<Rightarrow> event list \<Rightarrow> bool" where
  "resubmits_once loop [] = True"
| "resubmits_once loop (Call (ResponsesCreate oc req) (Inr (RResponse r)) # t) =
     (case input req of
        Text prompt \<Rightarrow>
          (case loop (output r) [] of
             Inl e \<Rightarrow> filter is_call t = []
           | Inr approvals \<Rightarrow>
               length (filter is_call t) = 1 \<and> submitted_inputs t = [Items approvals])
      | Items approvals \<Rightarrow> resubmits_once loop t)"
| "resubmits_once loop (ev # t) = resubmits_once loop t"

text \<open>The claim that every round carries the conversation: each
  \<^verbatim>\<open>responses.create\<close> call passes the identifier of the conversation created
  before it (\<open>conv\<close>).\<close>

fun all_rounds_carry :: "string option \<Rightarrow> event list \<Rightarrow> bool" where
  "all_rounds_carry conv [] = True"
| "all_rounds_carry conv (Call (ConversationsCreate oc) (Inr (RConversation c)) # t) =
     all_rounds_carry (Some (conversation_id c)) t"
| "all_rounds_carry conv (Call (ResponsesCreate oc req) out # t) =
     (conv \<noteq> None \<and> conversation req = conv \<and> all_rounds_carry conv t)"
| "all_rounds_carry conv (ev # t) = all_rounds_carry conv t"

text \<open>What the scripts do instead: the prompt submission carries the identifier of the
  conversation created before it and no previous response; the submission of approvals
  carries no conversation and the identifier of the response returned before it
  (\<open>prev\<close>).\<close>

fun rounds_linked :: "string option \<Rightarrow> string option \<Rightarrow> event list \<Rightarrow> bool" where
  "rounds_linked conv prev [] = True"
| "rounds_linked conv prev (Call (ConversationsCreate oc) (Inr (RConversation c)) # t) =
     rounds_linked (Some (conversation_id c)) prev t"
| "rounds_linked conv prev (Call (ResponsesCreate oc req) out # t) =
     ((case input req of
         Text prompt \<Rightarrow>
           conv \<noteq> None \<and> conversation req = conv \<and> previous_response_id req = None
       | Items approvals \<Rightarrow>
           conversation req = None \<and> prev \<noteq> None \<and> previous_response_id req = prev) \<and>
      rounds_linked conv
        (case out of Inr (RResponse r) \<Rightarrow> Some (response_id r) | _ \<Rightarrow> None) t)"
| "rounds_linked conv prev (ev # t) = rounds_linked conv prev t"

subsection \<open>Concrete inputs\<close>

text \<open>Output items: an approval request with a label and an identifier, and a message,
  which has neither a \<^verbatim>\<open>server_label\<close> nor an \<^verbatim>\<open>id\<close> attribute here.\<close>

definition approval_request :: "string \<Rightarrow> string \<Rightarrow> pyobj" where
  "approval_request label ident =
     [''type'' \<mapsto> PStr ''mcp_approval_request'', ''server_label'' \<mapsto> PStr label,
      ''id'' \<mapsto> PStr ident]"

definition message_item :: pyobj where
  "message_item = [''type'' \<mapsto> PStr ''message'']"

text \<open>The first scenario of the specification, section 8, with the label as a parameter,
  and a response in which one request occurs twice, with a request that has an empty
  identifier in between.\<close>

definition scenario_response :: "string \<Rightarrow> response" where
  "scenario_response label =
     \<lparr>response_id = ''resp_1'',
      output = [approval_request label ''r1'', message_item,
                approval_request ''other-tool'' ''r2''],
      output_text = []\<rparr>"

definition repeated_response :: "string \<Rightarrow> response" where
  "repeated_response label =
     \<lparr>response_id = ''resp_1'',
      output = [approval_request label ''r1'', approval_request label [],
                approval_request label ''r1''],
      output_text = []\<rparr>"

definition final_response :: response where
  "final_response = \<lparr>response_id = ''resp_2'', output = [], output_text = ''200''\<rparr>"

text \<open>Collaborators that all succeed; the prompt is answered with the given response, the
  approvals with \<open>final_response\<close>.\<close>

definition answering :: "response \<Rightarrow> services" where
  "answering first_response =
     \<lparr>DefaultAzureCredential = Inr (Credential 0),
      AIProjectClient = (\<lambda>endpoint cred. Inr (ProjectClient 0)),
      get_openai_client = (\<lambda>pc. Inr (OpenAIClient 0)),
      agents_create_version =
        (\<lambda>pc nm defn. Inr \<lparr>agent_id = ''agent_1'', agent_name = nm,
                             agent_latest_version = ''1''\<rparr>),
      agents_get =
        (\<lambda>pc nm. Inr \<lparr>agent_id = ''agent_1'', agent_name = nm,
                        agent_latest_version = ''1''\<rparr>),
      conversations_create = (\<lambda>oc. Inr \<lparr>conversation_id = ''conv_1''\<rparr>),
      responses_create =
        (\<lambda>oc req. case input req of Text prompt \<Rightarrow> Inr first_response
                                    | Items approvals \<Rightarrow> Inr final_response)\<rparr>"

text \<open>The same collaborators, except that the submission of approvals is rejected.\<close>

definition rejecting :: "response \<Rightarrow> services" where
  "rejecting first_response =
     (answering first_response)
       \<lparr>responses_create :=
          (\<lambda>oc req. case input req of Text prompt \<Rightarrow> Inr first_response
                                      | Items approvals \<Rightarrow> Inl (RemoteCallError ''denied''))\<rparr>"

definition full_environ :: environ where
  "full_environ =
     [''AZURE_AI_PROJECT_ENDPOINT'' \<mapsto> ''https://example.test'',
      ''AZURE_AI_MODEL_DEPLOYMENT_NAME'' \<mapsto> ''gpt'',
      ''CUSTOM_MCP_BEARER_TOKEN'' \<mapsto> ''secret'',
      ''AZURE_AI_AGENT_NAME'' \<mapsto> ''learn-agent'']"

text \<open>An environment that sets the four keys under the names the specification gives
  them, and one that sets the endpoint only.\<close>

definition spec_named_environ :: environ where
  "spec_named_environ =
     [''PROJECT_ENDPOINT'' \<mapsto> ''https://example.test'',
      ''MODEL_DEPLOYMENT_NAME'' \<mapsto> ''gpt'',
      ''MCP_BEARER_TOKEN'' \<mapsto> ''secret'',
      ''AGENT_NAME'' \<mapsto> ''learn-agent'']"

definition endpoint_only_environ :: environ where
  "endpoint_only_environ = [''AZURE_AI_PROJECT_ENDPOINT'' \<mapsto> ''https://example.test'']"

text \<open>A world that holds the first scenario: the output list at address 0, its three
  items after it, and two events already in the transcript.\<close>

definition scenario_world :: "string \<Rightarrow> world" where
  "scenario_world label =
     \<lparr>heap = [RefList [1, 2, 3],
               Instance (approval_request label ''r1''),
               Instance message_item,
               Instance (approval_request ''other-tool'' ''r2'')],
      events = [Print (CreatedConversation ''conv_1''), Exit CredentialCtx]\<rparr>"

section \<open>Proofs\<close>

subsection \<open>Auxiliary facts\<close>

lemmas script_defs =
  mcp_custom_create_def custom_create_body_def mcp_microsoft_learn_existing_def
  learn_existing_body_def then_do_def with_as_def remote_def local_step_def print_def
  submit_prompt_def resubmit_def os_environ_def agent_ref_def

lemmas input_defs =
  approval_request_def message_item_def scenario_response_def repeated_response_def
  final_response_def answering_def rejecting_def full_environ_def spec_named_environ_def
  endpoint_only_environ_def

lemma custom_create_item_scan:
  "custom_create_item item acc = approval_scan_item ''custom-mcp-bearer'' item acc"
  by (simp add: custom_create_item_def approval_scan_item_def)

lemma learn_existing_item_scan:
  "learn_existing_item item acc = approval_scan_item ''microsoft-learn-mcp'' item acc"
  by (simp add: learn_existing_item_def approval_scan_item_def)

lemma custom_create_loop_scan:
  "custom_create_loop items acc = approval_scan ''custom-mcp-bearer'' items acc"
  by (induction items arbitrary: acc) (simp_all add: custom_create_item_scan split: sum.splits)

lemma learn_existing_loop_scan:
  "learn_existing_loop items acc = approval_scan ''microsoft-learn-mcp'' items acc"
  by (induction items arbitrary: acc) (simp_all add: learn_existing_item_scan split: sum.splits)

lemma approval_scan_item_typed:
  "well_typed_item item \<Longrightarrow>
   approval_scan_item label item acc =
     Inr (acc @ (if wanted label item then [approval_for item] else []))"
  by (auto simp: approval_scan_item_def well_typed_item_def wanted_def approval_for_def
        getattr_def split: option.splits pyval.splits)

lemma approval_scan_typed:
  "list_all well_typed_item items \<Longrightarrow>
   approval_scan label items acc =
     Inr (acc @ concat (map (\<lambda>item. if wanted label item then [approval_for item] else [])
                          items))"
  by (induction items arbitrary: acc) (simp_all add: approval_scan_item_typed)

lemma concat_map_if_filter:
  "concat (map (\<lambda>x. if P x then [f x] else []) xs) = map f (filter P xs)"
  by (induction xs) simp_all

lemma wanted_id: "wanted label item \<Longrightarrow> Some (approval_request_id (approval_for item)) = item ''id''"
  by (auto simp: wanted_def approval_for_def split: option.splits)

lemma approval_scan_item_sound:
  "approval_scan_item label item acc = Inr acc' \<Longrightarrow>
   acc' = acc \<or>
   (\<exists>a. acc' = acc @ [a] \<and> item ''type'' = Some (PStr ''mcp_approval_request'') \<and>
        item ''server_label'' = Some (PStr label) \<and> item ''id'' = Some (approval_request_id a))"
  by (auto simp: approval_scan_item_def getattr_def split: option.splits if_splits)

lemma approval_scan_sound:
  "approval_scan label items acc = Inr result \<Longrightarrow> a \<in> set result \<Longrightarrow>
   a \<in> set acc \<or>
   (\<exists>item \<in> set items. item ''type'' = Some (PStr ''mcp_approval_request'') \<and>
        item ''server_label'' = Some (PStr label) \<and> item ''id'' = Some (approval_request_id a))"
proof (induction items arbitrary: acc)
  case Nil
  then show ?case by simp
next
  case (Cons item items)
  from Cons.prems(1) obtain acc' where
    step: "approval_scan_item label item acc = Inr acc'" and
    rest: "approval_scan label items acc' = Inr result"
    by (auto split: sum.splits)
  from Cons.IH [OF rest Cons.prems(2)] approval_scan_item_sound [OF step]
  show ?case by auto
qed

lemma approval_scan_skips:
  assumes "item ''type'' = Some ty" and "ty \<noteq> PStr ''mcp_approval_request''"
  shows "approval_scan label (before @ item(''server_label'' := l, ''id'' := i) # after) acc =
         approval_scan label (before @ after) acc"
proof (induction before arbitrary: acc)
  case Nil
  from assms show ?case by (simp add: approval_scan_item_def getattr_def)
next
  case (Cons x before)
  then show ?case by (simp split: sum.splits)
qed

lemma submitted_inputs_snoc:
  "submitted_inputs (t @ [Call (ResponsesCreate oc req) out]) = submitted_inputs t @ [input req]"
  by (induction t rule: submitted_inputs.induct) simp_all

text \<open>Two runs in full.\<close>

lemma scenario_custom_create_loop:
  "custom_create_loop (output (scenario_response ''custom-mcp-bearer'')) [] =
     Inr [\<lparr>type = ''mcp_approval_response'', approve = True,
           approval_request_id = PStr ''r1''\<rparr>]"
  by (simp add: scenario_response_def approval_request_def message_item_def
        custom_create_item_def getattr_def)

lemma scenario_learn_existing_loop:
  "learn_existing_loop (output (scenario_response ''microsoft-learn-mcp'')) [] =
     Inr [\<lparr>type = ''mcp_approval_response'', approve = True,
           approval_request_id = PStr ''r1''\<rparr>]"
  by (simp add: scenario_response_def approval_request_def message_item_def
        learn_existing_item_def getattr_def)

lemma scenario_custom_create_run:
  "mcp_custom_create full_environ (answering (scenario_response ''custom-mcp-bearer'')) [] =
     ([Call NewCredential (Inr (RCredential (Credential 0))),
       Call (NewProjectClient ''https://example.test'' (Credential 0))
         (Inr (RProjectClient (ProjectClient 0))),
       Call (GetOpenAIClient (ProjectClient 0)) (Inr (ROpenAIClient (OpenAIClient 0))),
       Call (AgentsCreateVersion (ProjectClient 0) ''FoundryNew-MCP-CustomAgent''
               (agent_definition ''gpt'' (tool_declaration ''secret'')))
         (Inr (RAgent \<lparr>agent_id = ''agent_1'', agent_name = ''FoundryNew-MCP-CustomAgent'',
                        agent_latest_version = ''1''\<rparr>)),
       Print (AgentCreated ''agent_1'' ''FoundryNew-MCP-CustomAgent''),
       Call (ConversationsCreate (OpenAIClient 0))
         (Inr (RConversation \<lparr>conversation_id = ''conv_1''\<rparr>)),
       Print (CreatedConversation ''conv_1''),
       Call (ResponsesCreate (OpenAIClient 0)
               \<lparr>conversation = Some ''conv_1'', input = Text ''multiply 10 and 20'',
                previous_response_id = None,
                extra_body = \<lparr>name = ''FoundryNew-MCP-CustomAgent'',
                               reference_type = ''agent_reference''\<rparr>\<rparr>)
         (Inr (RResponse (scenario_response ''custom-mcp-bearer''))),
       Print FinalInputHeading,
       Print (FinalInput [\<lparr>type = ''mcp_approval_response'', approve = True,
                           approval_request_id = PStr ''r1''\<rparr>]),
       Call (ResponsesCreate (OpenAIClient 0)
               \<lparr>conversation = None,
                input = Items [\<lparr>type = ''mcp_approval_response'', approve = True,
                                approval_request_id = PStr ''r1''\<rparr>],
                previous_response_id = Some ''resp_1'',
                extra_body = \<lparr>name = ''FoundryNew-MCP-CustomAgent'',
                               reference_type = ''agent_reference''\<rparr>\<rparr>)
         (Inr (RResponse final_response)),
       Print (AgentResponse ''200''),
       Exit OpenAIClientCtx, Exit ProjectClientCtx, Exit CredentialCtx],
      Inr ())"
  by (simp add: script_defs answering_def full_environ_def Let_def
        scenario_custom_create_loop)
     (simp add: scenario_response_def final_response_def)

lemma scenario_learn_existing_rejected_run:
  "mcp_microsoft_learn_existing full_environ
     (rejecting (scenario_response ''microsoft-learn-mcp'')) [] =
     ([Call NewCredential (Inr (RCredential (Credential 0))),
       Call (NewProjectClient ''https://example.test'' (Credential 0))
         (Inr (RProjectClient (ProjectClient 0))),
       Call (GetOpenAIClient (ProjectClient 0)) (Inr (ROpenAIClient (OpenAIClient 0))),
       Call (AgentsGet (ProjectClient 0) ''learn-agent'')
         (Inr (RAgent \<lparr>agent_id = ''agent_1'', agent_name = ''learn-agent'',
                        agent_latest_version = ''1''\<rparr>)),
       Print (AgentRetrieved ''agent_1'' ''learn-agent'' ''1''),
       Call (ConversationsCreate (OpenAIClient 0))
         (Inr (RConversation \<lparr>conversation_id = ''conv_1''\<rparr>)),
       Print (CreatedConversation ''conv_1''),
       Call (ResponsesCreate (OpenAIClient 0)
               \<lparr>conversation = Some ''conv_1'',
                input = Text ''Please summarize latest features of Azure Cosmos DB from Microsoft Learn.'',
                previous_response_id = None,
                extra_body = \<lparr>name = ''learn-agent'',
                               reference_type = ''agent_reference''\<rparr>\<rparr>)
         (Inr (RResponse (scenario_response ''microsoft-learn-mcp''))),
       Print FinalInputHeading,
       Print (FinalInput [\<lparr>type = ''mcp_approval_response'', approve = True,
                           approval_request_id = PStr ''r1''\<rparr>]),
       Call (ResponsesCreate (OpenAIClient 0)
               \<lparr>conversation = None,
                input = Items [\<lparr>type = ''mcp_approval_response'', approve = True,
                                approval_request_id = PStr ''r1''\<rparr>],
                previous_response_id = Some ''resp_1'',
                extra_body = \<lparr>name = ''learn-agent'',
                               reference_type = ''agent_reference''\<rparr>\<rparr>)
         (Inl (RemoteCallError ''denied'')),
       Exit OpenAIClientCtx, Exit ProjectClientCtx, Exit CredentialCtx],
      Inl (RemoteCallError ''denied''))"
  by (simp add: script_defs answering_def rejecting_def full_environ_def Let_def
        scenario_learn_existing_loop)
     (simp add: scenario_response_def)

text \<open>The scan on the store computes what the loop over values computes, in a list it
  allocates, and writes nothing else.\<close>

lemma cell_at_update_id: "cell_at h l = Some c \<Longrightarrow> h[l := c] = h"
  by (auto simp: cell_at_def split: if_splits)

lemma cell_at_update: "cell_at h l = Some c \<Longrightarrow> cell_at (h[l := c']) l = Some c'"
  by (auto simp: cell_at_def split: if_splits)

lemma attributes_update:
  "cell_at h l = Some (DictList ds) \<Longrightarrow> attributes (h[l := DictList ds']) = attributes h"
  by (rule ext) (auto simp: attributes_def cell_at_def nth_list_update split: if_splits)

lemma attributes_alloc: "attributes (h @ [DictList ds]) = attributes h"
  by (rule ext) (auto simp: attributes_def cell_at_def nth_append)

lemma items_at_alloc: "items_at (h @ [DictList ds]) a = items_at h a"
  by (auto simp: items_at_def cell_at_def nth_append attributes_alloc split: obj.splits)

lemma world_heap_id: "cell_at (heap w) l = Some c \<Longrightarrow> w\<lparr>heap := (heap w)[l := c]\<rparr> = w"
  by (simp add: cell_at_update_id)

lemma custom_create_step_refines:
  assumes "cell_at (heap w) l = Some (DictList acc)"
  shows "custom_create_step l a w =
           (case custom_create_item (attributes (heap w) a) acc of
              Inl e \<Rightarrow> (w, Inl e)
            | Inr acc' \<Rightarrow> (w\<lparr>heap := (heap w)[l := DictList acc']\<rparr>, Inr ()))"
  using assms
  by (simp add: custom_create_step_def custom_create_item_def and_then_def read_attr_def
        list_append_def returning_def world_heap_id split: sum.splits)

lemma learn_existing_step_refines:
  assumes "cell_at (heap w) l = Some (DictList acc)"
  shows "learn_existing_step l a w =
           (case learn_existing_item (attributes (heap w) a) acc of
              Inl e \<Rightarrow> (w, Inl e)
            | Inr acc' \<Rightarrow> (w\<lparr>heap := (heap w)[l := DictList acc']\<rparr>, Inr ()))"
  using assms
  by (simp add: learn_existing_step_def learn_existing_item_def and_then_def read_attr_def
        list_append_def returning_def world_heap_id split: sum.splits)

lemma for_each_refines:
  assumes step: "\<And>a w acc. cell_at (heap w) l = Some (DictList acc) \<Longrightarrow>
            step a w =
              (case itemf (attributes (heap w) a) acc of
                 Inl e \<Rightarrow> (w, Inl e)
               | Inr acc' \<Rightarrow> (w\<lparr>heap := (heap w)[l := DictList acc']\<rparr>, Inr ()))"
    and nil: "\<And>acc. loopf [] acc = Inr acc"
    and cons: "\<And>x xs acc. loopf (x # xs) acc =
            (case itemf x acc of Inl e \<Rightarrow> Inl e | Inr acc' \<Rightarrow> loopf xs acc')"
    and cell: "cell_at (heap w) l = Some (DictList acc)"
  shows "\<exists>ds. for_each step refs w =
                (w\<lparr>heap := (heap w)[l := DictList ds]\<rparr>,
                 map_sum (\<lambda>e. e) (\<lambda>_. ()) (loopf (map (attributes (heap w)) refs) acc)) \<and>
              (\<forall>r. loopf (map (attributes (heap w)) refs) acc = Inr r \<longrightarrow> ds = r)"
  using cell
proof (induction refs arbitrary: w acc)
  case Nil
  then show ?case
    by (intro exI [of _ acc]) (simp add: returning_def nil world_heap_id)
next
  case (Cons a refs)
  show ?case
  proof (cases "itemf (attributes (heap w) a) acc")
    case (Inl e)
    with Cons.prems show ?thesis
      by (intro exI [of _ acc]) (simp add: and_then_def step cons world_heap_id)
  next
    case (Inr acc1)
    let ?w1 = "w\<lparr>heap := (heap w)[l := DictList acc1]\<rparr>"
    have cell1: "cell_at (heap ?w1) l = Some (DictList acc1)"
      using Cons.prems by (simp add: cell_at_update)
    have same: "attributes (heap ?w1) = attributes (heap w)"
      using Cons.prems by (simp add: attributes_update)
    from Cons.IH [OF cell1] obtain ds where
      run: "for_each step refs ?w1 =
              (?w1\<lparr>heap := (heap ?w1)[l := DictList ds]\<rparr>,
               map_sum (\<lambda>e. e) (\<lambda>_. ()) (loopf (map (attributes (heap ?w1)) refs) acc1))"
      and res: "\<forall>r. loopf (map (attributes (heap ?w1)) refs) acc1 = Inr r \<longrightarrow> ds = r"
      by blast
    show ?thesis
      using Cons.prems Inr run res
      unfolding same
      by (intro exI [of _ ds]) (simp add: and_then_def step cons)
  qed
qed

lemma scan_outcome:
  assumes step: "\<And>l a w acc. cell_at (heap w) l = Some (DictList acc) \<Longrightarrow>
            step l a w =
              (case itemf (attributes (heap w) a) acc of
                 Inl e \<Rightarrow> (w, Inl e)
               | Inr acc' \<Rightarrow> (w\<lparr>heap := (heap w)[l := DictList acc']\<rparr>, Inr ()))"
    and nil: "\<And>acc. loopf [] acc = Inr acc"
    and cons: "\<And>x xs acc. loopf (x # xs) acc =
            (case itemf x acc of Inl e \<Rightarrow> Inl e | Inr acc' \<Rightarrow> loopf xs acc')"
    and scan: "\<And>out. scan out =
            and_then new_list (\<lambda>input_list.
            and_then (iterate out) (\<lambda>items.
            and_then (for_each (step input_list) items) (\<lambda>_.
            returning input_list)))"
  shows "\<exists>ds. fst (scan out w) = w\<lparr>heap := heap w @ [DictList ds]\<rparr> \<and>
              collected (scan out w) =
                (case items_at (heap w) out of Inl e \<Rightarrow> Inl e | Inr items \<Rightarrow> loopf items [])"
proof -
  let ?l = "length (heap w)"
  let ?w0 = "w\<lparr>heap := heap w @ [DictList []]\<rparr>"
  have cell0: "cell_at (heap ?w0) ?l = Some (DictList [])"
    by (simp add: cell_at_def)
  show ?thesis
  proof (cases "items_at (heap w) out")
    case (Inl e)
    then have "iterate out ?w0 = (?w0, Inl e)"
      using items_at_alloc [of "heap w" "[]" out]
      by (auto simp: iterate_def items_at_def split: option.splits obj.splits)
    with Inl show ?thesis
      by (intro exI [of _ "[]"])
         (simp add: scan and_then_def new_list_def collected_def)
  next
    case (Inr items)
    then obtain refs where refs: "cell_at (heap w) out = Some (RefList refs)"
      and items: "items = map (attributes (heap w)) refs"
      by (auto simp: items_at_def split: option.splits obj.splits)
    from refs have it: "iterate out ?w0 = (?w0, Inr refs)"
      by (auto simp: iterate_def cell_at_def nth_append split: if_splits)
    from for_each_refines [of ?l "step ?l" itemf loopf ?w0 "[]" refs, OF step nil cons cell0]
    obtain ds where
      run: "for_each (step ?l) refs ?w0 =
              (?w0\<lparr>heap := (heap ?w0)[?l := DictList ds]\<rparr>,
               map_sum (\<lambda>e. e) (\<lambda>_. ()) (loopf (map (attributes (heap ?w0)) refs) []))"
      and res: "\<forall>r. loopf (map (attributes (heap ?w0)) refs) [] = Inr r \<longrightarrow> ds = r"
      by blast
    have same: "attributes (heap ?w0) = attributes (heap w)"
      by (simp add: attributes_alloc)
    show ?thesis
      using Inr it run res
      unfolding same items [symmetric]
      by (intro exI [of _ ds], cases "loopf items []")
         (auto simp: scan and_then_def new_list_def returning_def collected_def cell_at_def
            split: sum.splits)
  qed
qed

lemma custom_create_scan_outcome:
  "\<exists>ds. fst (custom_create_scan out w) = w\<lparr>heap := heap w @ [DictList ds]\<rparr> \<and>
        collected (custom_create_scan out w) =
          (case items_at (heap w) out of
             Inl e \<Rightarrow> Inl e
           | Inr items \<Rightarrow> custom_create_loop items [])"
  by (rule scan_outcome [where step = custom_create_step and itemf = custom_create_item])
     (simp_all add: custom_create_step_refines custom_create_scan_def)

lemma learn_existing_scan_outcome:
  "\<exists>ds. fst (learn_existing_scan out w) = w\<lparr>heap := heap w @ [DictList ds]\<rparr> \<and>
        collected (learn_existing_scan out w) =
          (case items_at (heap w) out of
             Inl e \<Rightarrow> Inl e
           | Inr items \<Rightarrow> learn_existing_loop items [])"
  by (rule scan_outcome [where step = learn_existing_step and itemf = learn_existing_item])
     (simp_all add: learn_existing_step_refines learn_existing_scan_def)

lemma scan_only_allocates:
  assumes "\<exists>ds. fst (scan out w) = w\<lparr>heap := heap w @ [DictList ds]\<rparr> \<and>
                collected (scan out w) =
                  (case items_at (heap w) out of Inl e \<Rightarrow> Inl e | Inr items \<Rightarrow> loopf items [])"
  shows "events (fst (scan out w)) = events w \<and>
         take (length (heap w)) (heap (fst (scan out w))) = heap w \<and>
         length (heap (fst (scan out w))) = length (heap w) + 1 \<and>
         items_at (heap (fst (scan out w))) out = items_at (heap w) out"
  using assms by (auto simp: items_at_alloc)

subsection \<open>The approval scan\<close>

text \<open>
  Claim C1. On a response whose items are typed as the SDK declares them, the loop of each
  script raises nothing and returns what \<open>collect_approvals\<close> describes: for each item,
  in order, one approval with \<open>approve = True\<close> and the item's identifier if the item is
  an approval request with the script's server label and a non-empty identifier, and nothing
  for any other item, be it of another type, of another label, or with an identifier that is
  empty or \<^verbatim>\<open>None\<close>.
\<close>
theorem scan_collects_matching_requests:
  assumes "list_all well_typed_item (output response)"
  shows "custom_create_loop (output response) [] =
           Inr (collect_approvals response ''custom-mcp-bearer'') \<and>
         learn_existing_loop (output response) [] =
           Inr (collect_approvals response ''microsoft-learn-mcp'')"
  using assms
  by (simp add: custom_create_loop_scan learn_existing_loop_scan approval_scan_typed
        collect_approvals_def)

theorem scan_collects_matching_requests_witness:
  "list_all well_typed_item (output (scenario_response ''custom-mcp-bearer'')) \<and>
   custom_create_loop (output (scenario_response ''custom-mcp-bearer'')) [] =
     Inr [\<lparr>type = ''mcp_approval_response'', approve = True,
           approval_request_id = PStr ''r1''\<rparr>] \<and>
   learn_existing_loop (output (scenario_response ''custom-mcp-bearer'')) [] = Inr []"
  using scan_collects_matching_requests [of "scenario_response ''custom-mcp-bearer''"]
  by (simp add: input_defs well_typed_item_def collect_approvals_def wanted_def
        approval_for_def)

text \<open>
  Claim C2. The approvals come in the order of the matching items, one for each of them:
  the result is the image of the sub-list of matching items, and its identifiers are theirs,
  position by position. Nothing is removed when an identifier occurs twice.
\<close>
theorem scan_is_stable_without_deduplication:
  assumes "list_all well_typed_item items"
  shows "(\<exists>approvals. custom_create_loop items [] = Inr approvals \<and>
            approvals = map approval_for (filter (wanted ''custom-mcp-bearer'') items) \<and>
            map (\<lambda>a. Some (approval_request_id a)) approvals =
              map (\<lambda>item. item ''id'') (filter (wanted ''custom-mcp-bearer'') items)) \<and>
         (\<exists>approvals. learn_existing_loop items [] = Inr approvals \<and>
            approvals = map approval_for (filter (wanted ''microsoft-learn-mcp'') items) \<and>
            map (\<lambda>a. Some (approval_request_id a)) approvals =
              map (\<lambda>item. item ''id'') (filter (wanted ''microsoft-learn-mcp'') items))"
  using assms
  by (auto simp add: custom_create_loop_scan learn_existing_loop_scan approval_scan_typed
        concat_map_if_filter dest: wanted_id)

theorem scan_is_stable_without_deduplication_witness:
  "list_all well_typed_item (output (repeated_response ''microsoft-learn-mcp'')) \<and>
   learn_existing_loop (output (repeated_response ''microsoft-learn-mcp'')) [] =
     Inr [\<lparr>type = ''mcp_approval_response'', approve = True,
           approval_request_id = PStr ''r1''\<rparr>,
          \<lparr>type = ''mcp_approval_response'', approve = True,
           approval_request_id = PStr ''r1''\<rparr>] \<and>
   custom_create_loop (output (repeated_response ''microsoft-learn-mcp'')) [] = Inr []"
  using scan_is_stable_without_deduplication
          [of "output (repeated_response ''microsoft-learn-mcp'')"]
  by (simp add: input_defs well_typed_item_def wanted_def approval_for_def)

text \<open>
  Claim C5. The scan of either script, run in any world on any address, changes nothing
  that existed before it: the transcript is the same, every object of the heap (the output
  list, the items and all others) is the same, and the heap has grown by one object, the
  \<^verbatim>\<open>input_list\<close> the scan allocated. Run a second time in the world the first run
  left, it collects the same approvals or raises the same error. What it collects is what
  the loop over values returns on the items of the output list.
\<close>

theorem scan_changes_nothing_and_repeats:
  "events (fst (custom_create_scan out w)) = events w \<and>
   take (length (heap w)) (heap (fst (custom_create_scan out w))) = heap w \<and>
   length (heap (fst (custom_create_scan out w))) = length (heap w) + 1 \<and>
   collected (custom_create_scan out (fst (custom_create_scan out w))) =
     collected (custom_create_scan out w) \<and>
   collected (custom_create_scan out w) =
     (case items_at (heap w) out of
        Inl e \<Rightarrow> Inl e
      | Inr items \<Rightarrow> custom_create_loop items []) \<and>
   events (fst (learn_existing_scan out w)) = events w \<and>
   take (length (heap w)) (heap (fst (learn_existing_scan out w))) = heap w \<and>
   length (heap (fst (learn_existing_scan out w))) = length (heap w) + 1 \<and>
   collected (learn_existing_scan out (fst (learn_existing_scan out w))) =
     collected (learn_existing_scan out w) \<and>
   collected (learn_existing_scan out w) =
     (case items_at (heap w) out of
        Inl e \<Rightarrow> Inl e
      | Inr items \<Rightarrow> learn_existing_loop items [])"
proof -
  let ?c = "fst (custom_create_scan out w)" and ?l = "fst (learn_existing_scan out w)"
  note c1 = scan_only_allocates
    [where scan = custom_create_scan and loopf = custom_create_loop,
     OF custom_create_scan_outcome [of out w]]
  note l1 = scan_only_allocates
    [where scan = learn_existing_scan and loopf = learn_existing_loop,
     OF learn_existing_scan_outcome [of out w]]
  have c2: "collected (custom_create_scan out w) =
      (case items_at (heap w) out of Inl e \<Rightarrow> Inl e | Inr items \<Rightarrow> custom_create_loop items [])"
    using custom_create_scan_outcome [of out w] by blast
  have c3: "collected (custom_create_scan out ?c) =
      (case items_at (heap ?c) out of Inl e \<Rightarrow> Inl e | Inr items \<Rightarrow> custom_create_loop items [])"
    using custom_create_scan_outcome [of out ?c] by blast
  have l2: "collected (learn_existing_scan out w) =
      (case items_at (heap w) out of Inl e \<Rightarrow> Inl e | Inr items \<Rightarrow> learn_existing_loop items [])"
    using learn_existing_scan_outcome [of out w] by blast
  have l3: "collected (learn_existing_scan out ?l) =
      (case items_at (heap ?l) out of Inl e \<Rightarrow> Inl e | Inr items \<Rightarrow> learn_existing_loop items [])"
    using learn_existing_scan_outcome [of out ?l] by blast
  from c1 l1 c2 c3 l2 l3 show ?thesis by simp
qed

theorem scan_changes_nothing_and_repeats_witness:
  "custom_create_scan 0 (scenario_world ''custom-mcp-bearer'') =
     (\<lparr>heap = heap (scenario_world ''custom-mcp-bearer'') @
               [DictList [\<lparr>type = ''mcp_approval_response'', approve = True,
                           approval_request_id = PStr ''r1''\<rparr>]],
       events = events (scenario_world ''custom-mcp-bearer'')\<rparr>, Inr 4) \<and>
   collected (custom_create_scan 0
     (fst (custom_create_scan 0 (scenario_world ''custom-mcp-bearer'')))) =
     Inr [\<lparr>type = ''mcp_approval_response'', approve = True,
           approval_request_id = PStr ''r1''\<rparr>]"
proof -
  have run: "custom_create_scan 0 (scenario_world ''custom-mcp-bearer'') =
     (\<lparr>heap = heap (scenario_world ''custom-mcp-bearer'') @
               [DictList [\<lparr>type = ''mcp_approval_response'', approve = True,
                           approval_request_id = PStr ''r1''\<rparr>]],
       events = events (scenario_world ''custom-mcp-bearer'')\<rparr>, Inr 4)"
    by (simp add: custom_create_scan_def custom_create_step_def and_then_def new_list_def
          iterate_def returning_def read_attr_def list_append_def cell_at_def attributes_def
          getattr_def scenario_world_def approval_request_def message_item_def)
  then show ?thesis
    using scan_changes_nothing_and_repeats [of 0 "scenario_world ''custom-mcp-bearer''"]
    by (simp add: collected_def cell_at_def scenario_world_def)
qed

text \<open>
  Claim C9. The loops of the two scripts are one function of the server label: the loop of
  \<^verbatim>\<open>mcp-custom-create.py\<close> is \<open>approval_scan\<close> at \<open>custom-mcp-bearer\<close>, the loop
  of \<^verbatim>\<open>mcp-microsoft-learn-existing.py\<close> is \<open>approval_scan\<close> at
  \<open>microsoft-learn-mcp\<close>, on every list of items and every starting list.
\<close>
theorem scripts_share_one_scan:
  "custom_create_loop items acc = approval_scan ''custom-mcp-bearer'' items acc \<and>
   learn_existing_loop items acc = approval_scan ''microsoft-learn-mcp'' items acc"
  by (simp add: custom_create_loop_scan learn_existing_loop_scan)

text \<open>
  Claim C10. An item whose type is not \<open>mcp_approval_request\<close> has no influence on the
  scan, whatever its \<^verbatim>\<open>server_label\<close> and \<^verbatim>\<open>id\<close> attributes are and whether it
  has them at all (\<open>l\<close> and \<open>i\<close> range over every value and over the missing
  attribute): the scan behaves as if the item were not in the list, so it neither fails on it
  nor appends anything for it.
\<close>
theorem other_items_are_not_inspected:
  assumes "item ''type'' = Some ty" and "ty \<noteq> PStr ''mcp_approval_request''"
  shows "custom_create_loop (before @ item(''server_label'' := l, ''id'' := i) # after) acc =
           custom_create_loop (before @ after) acc \<and>
         learn_existing_loop (before @ item(''server_label'' := l, ''id'' := i) # after) acc =
           learn_existing_loop (before @ after) acc"
  using assms
  by (simp add: custom_create_loop_scan learn_existing_loop_scan approval_scan_skips)

theorem other_items_are_not_inspected_witness:
  "message_item ''type'' = Some (PStr ''message'') \<and>
   PStr ''message'' \<noteq> PStr ''mcp_approval_request'' \<and>
   custom_create_loop
     ([approval_request ''custom-mcp-bearer'' ''r1''] @
      message_item(''server_label'' := None, ''id'' := None) #
      [approval_request ''custom-mcp-bearer'' ''r3'']) [] =
   custom_create_loop
     ([approval_request ''custom-mcp-bearer'' ''r1''] @
      [approval_request ''custom-mcp-bearer'' ''r3'']) [] \<and>
   custom_create_loop
     ([approval_request ''custom-mcp-bearer'' ''r1''] @
      [approval_request ''custom-mcp-bearer'' ''r3'']) [] =
     Inr [\<lparr>type = ''mcp_approval_response'', approve = True,
           approval_request_id = PStr ''r1''\<rparr>,
          \<lparr>type = ''mcp_approval_response'', approve = True,
           approval_request_id = PStr ''r3''\<rparr>]"
  using other_items_are_not_inspected
          [of message_item "PStr ''message''" "[approval_request ''custom-mcp-bearer'' ''r1'']"
              None None "[approval_request ''custom-mcp-bearer'' ''r3'']" "[]"]
  by (simp add: input_defs custom_create_item_def getattr_def)

subsection \<open>The sessions\<close>

lemmas run_splits = sum.splits option.splits

lemma loop_justified:
  "custom_create_loop items [] = Inr result \<Longrightarrow>
   (\<forall>a \<in> set result. \<exists>item \<in> set items.
      item ''type'' = Some (PStr ''mcp_approval_request'') \<and>
      item ''server_label'' = Some (PStr ''custom-mcp-bearer'') \<and>
      item ''id'' = Some (approval_request_id a))"
  "learn_existing_loop items [] = Inr result \<Longrightarrow>
   (\<forall>a \<in> set result. \<exists>item \<in> set items.
      item ''type'' = Some (PStr ''mcp_approval_request'') \<and>
      item ''server_label'' = Some (PStr ''microsoft-learn-mcp'') \<and>
      item ''id'' = Some (approval_request_id a))"
  using approval_scan_sound [of _ items "[]" result]
  by (auto simp: custom_create_loop_scan learn_existing_loop_scan)

text \<open>
  Claim C3. In every run of either script, whatever the environment and the collaborators
  are, each approval that a \<^verbatim>\<open>responses.create\<close> call submits carries the identifier
  of an item of the output of the response returned by the \<^verbatim>\<open>responses.create\<close> call
  just before it, an item of type \<open>mcp_approval_request\<close> whose server label is the
  script's label.
\<close>

theorem approvals_answer_requests:
  "justified ''custom-mcp-bearer'' [] (fst (mcp_custom_create env svc [])) \<and>
   justified ''microsoft-learn-mcp'' [] (fst (mcp_microsoft_learn_existing env svc []))"
proof -
  have "justified ''custom-mcp-bearer'' [] (fst (mcp_custom_create env svc []))"
    by (simp add: script_defs Let_def loop_justified split: run_splits)
  moreover
  have "justified ''microsoft-learn-mcp'' [] (fst (mcp_microsoft_learn_existing env svc []))"
    by (simp add: script_defs Let_def loop_justified split: run_splits)
  ultimately show ?thesis by simp
qed

theorem approvals_answer_requests_witness:
  "justified ''custom-mcp-bearer'' []
     (fst (mcp_custom_create full_environ
             (answering (scenario_response ''custom-mcp-bearer'')) [])) \<and>
   submitted_inputs
     (fst (mcp_custom_create full_environ
             (answering (scenario_response ''custom-mcp-bearer'')) [])) =
     [Text ''multiply 10 and 20'',
      Items [\<lparr>type = ''mcp_approval_response'', approve = True,
              approval_request_id = PStr ''r1''\<rparr>]]"
  using approvals_answer_requests
          [of full_environ "answering (scenario_response ''custom-mcp-bearer'')"]
  by (simp add: scenario_custom_create_run)

text \<open>
  Claim C4. The resubmission makes exactly one call, for every list of approvals: the
  transcript grows by one call, a \<^verbatim>\<open>responses.create\<close> whose input is the list, and
  for the empty list the input is the empty list. In a session, once the prompt has been
  answered and the scan has returned, exactly one more call is made and it submits what the
  scan returned, empty or not.
\<close>

theorem resubmit_issues_one_call:
  "length (filter is_call (fst (resubmit svc oc approvals response agent t))) =
     length (filter is_call t) + 1 \<and>
   submitted_inputs (fst (resubmit svc oc approvals response agent t)) =
     submitted_inputs t @ [Items approvals] \<and>
   submitted_inputs (fst (resubmit svc oc [] response agent [])) = [Items []] \<and>
   resubmits_once custom_create_loop (fst (mcp_custom_create env svc [])) \<and>
   resubmits_once learn_existing_loop (fst (mcp_microsoft_learn_existing env svc []))"
proof -
  have "resubmits_once custom_create_loop (fst (mcp_custom_create env svc []))"
    by (simp add: script_defs Let_def split: run_splits)
  moreover
  have "resubmits_once learn_existing_loop (fst (mcp_microsoft_learn_existing env svc []))"
    by (simp add: script_defs Let_def split: run_splits)
  ultimately show ?thesis
    by (simp add: resubmit_def remote_def Let_def submitted_inputs_snoc)
qed

theorem resubmit_issues_one_call_witness:
  "submitted_inputs
     (fst (resubmit (answering final_response) (OpenAIClient 0) []
             (scenario_response ''other-tool'') \<lparr>agent_id = ''agent_1'',
                agent_name = ''learn-agent'', agent_latest_version = ''1''\<rparr> [])) =
     [Items []] \<and>
   length (filter is_call
     (fst (resubmit (answering final_response) (OpenAIClient 0) []
             (scenario_response ''other-tool'') \<lparr>agent_id = ''agent_1'',
                agent_name = ''learn-agent'', agent_latest_version = ''1''\<rparr> []))) = 1"
  using resubmit_issues_one_call
          [of "answering final_response" "OpenAIClient 0" "[]"
              "scenario_response ''other-tool''"
              "\<lparr>agent_id = ''agent_1'', agent_name = ''learn-agent'',
                agent_latest_version = ''1''\<rparr>" "[]"]
  by simp

text \<open>
  Claim C6, as stated, fails. With only \<open>AZURE_AI_PROJECT_ENDPOINT\<close> set,
  \<^verbatim>\<open>mcp-custom-create.py\<close> acquires the credential and constructs both clients before
  it raises \<^verbatim>\<open>KeyError\<close> for the bearer token; and with the four keys set under the
  names the claim gives them, it raises \<^verbatim>\<open>KeyError\<close> for
  \<open>AZURE_AI_PROJECT_ENDPOINT\<close>, the name it reads.
\<close>

theorem missing_token_fails_after_construction:
  "mcp_custom_create endpoint_only_environ
     (answering (scenario_response ''custom-mcp-bearer'')) [] =
     ([Call NewCredential (Inr (RCredential (Credential 0))),
       Call (NewProjectClient ''https://example.test'' (Credential 0))
         (Inr (RProjectClient (ProjectClient 0))),
       Call (GetOpenAIClient (ProjectClient 0)) (Inr (ROpenAIClient (OpenAIClient 0))),
       Exit OpenAIClientCtx, Exit ProjectClientCtx, Exit CredentialCtx],
      Inl (KeyError ''CUSTOM_MCP_BEARER_TOKEN'')) \<and>
   mcp_custom_create spec_named_environ
     (answering (scenario_response ''custom-mcp-bearer'')) [] =
     ([], Inl (KeyError ''AZURE_AI_PROJECT_ENDPOINT''))"
  by (simp add: script_defs answering_def endpoint_only_environ_def spec_named_environ_def)

text \<open>
  Claim C6, amended. \<^verbatim>\<open>mcp-custom-create.py\<close> reads the keys
  \<open>AZURE_AI_PROJECT_ENDPOINT\<close>, \<open>CUSTOM_MCP_BEARER_TOKEN\<close> and
  \<open>AZURE_AI_MODEL_DEPLOYMENT_NAME\<close> and no other;
  \<^verbatim>\<open>mcp-microsoft-learn-existing.py\<close> reads \<open>AZURE_AI_PROJECT_ENDPOINT\<close> and
  \<open>AZURE_AI_AGENT_NAME\<close> and no other. Without the endpoint either script raises
  \<^verbatim>\<open>KeyError\<close> before any collaborator is called, and so does the second script
  without the agent name. Without the bearer token or the deployment name the first script
  calls no service of the agent, the conversation or the responses, but it does not fail
  first: it starts by acquiring the credential, and where the credential and the two
  clients are constructed it raises \<^verbatim>\<open>KeyError\<close> for the first of the two keys
  that is missing only after these three calls, whereupon the three contexts are left.
\<close>

theorem configuration_keys_and_failure_order:
  "((\<forall>k \<in> {''AZURE_AI_PROJECT_ENDPOINT'', ''CUSTOM_MCP_BEARER_TOKEN'',
             ''AZURE_AI_MODEL_DEPLOYMENT_NAME''}. env k = env' k) \<longrightarrow>
      mcp_custom_create env svc = mcp_custom_create env' svc) \<and>
   ((\<forall>k \<in> {''AZURE_AI_PROJECT_ENDPOINT'', ''AZURE_AI_AGENT_NAME''}. env k = env' k) \<longrightarrow>
      mcp_microsoft_learn_existing env svc = mcp_microsoft_learn_existing env' svc) \<and>
   (env0 ''AZURE_AI_PROJECT_ENDPOINT'' = None \<longrightarrow>
      mcp_custom_create env0 svc [] = ([], Inl (KeyError ''AZURE_AI_PROJECT_ENDPOINT'')) \<and>
      mcp_microsoft_learn_existing env0 svc [] =
        ([], Inl (KeyError ''AZURE_AI_PROJECT_ENDPOINT''))) \<and>
   (env1 ''AZURE_AI_PROJECT_ENDPOINT'' \<noteq> None \<and> env1 ''AZURE_AI_AGENT_NAME'' = None \<longrightarrow>
      mcp_microsoft_learn_existing env1 svc [] =
        ([], Inl (KeyError ''AZURE_AI_AGENT_NAME''))) \<and>
   (env2 ''AZURE_AI_PROJECT_ENDPOINT'' \<noteq> None \<and>
    (env2 ''CUSTOM_MCP_BEARER_TOKEN'' = None \<or>
     env2 ''AZURE_AI_MODEL_DEPLOYMENT_NAME'' = None) \<longrightarrow>
      filter service_request (fst (mcp_custom_create env2 svc [])) = [] \<and>
      (snd (mcp_custom_create env2 svc []) =
         Inl (KeyError (if env2 ''CUSTOM_MCP_BEARER_TOKEN'' = None
                        then ''CUSTOM_MCP_BEARER_TOKEN''
                        else ''AZURE_AI_MODEL_DEPLOYMENT_NAME'')) \<or>
       (\<exists>c e. Call c (Inl e) \<in> set (fst (mcp_custom_create env2 svc [])) \<and>
              snd (mcp_custom_create env2 svc []) = Inl e))) \<and>
   (env2 ''AZURE_AI_PROJECT_ENDPOINT'' = Some endpoint \<and>
    (env2 ''CUSTOM_MCP_BEARER_TOKEN'' = None \<or>
     env2 ''AZURE_AI_MODEL_DEPLOYMENT_NAME'' = None) \<longrightarrow>
      (\<exists>out rest. fst (mcp_custom_create env2 svc []) = Call NewCredential out # rest) \<and>
      (DefaultAzureCredential svc = Inr cred \<and>
       AIProjectClient svc endpoint cred = Inr project_client \<and>
       get_openai_client svc project_client = Inr openai_client \<longrightarrow>
         mcp_custom_create env2 svc [] =
           ([Call NewCredential (Inr (RCredential cred)),
             Call (NewProjectClient endpoint cred) (Inr (RProjectClient project_client)),
             Call (GetOpenAIClient project_client) (Inr (ROpenAIClient openai_client)),
             Exit OpenAIClientCtx, Exit ProjectClientCtx, Exit CredentialCtx],
            Inl (KeyError (if env2 ''CUSTOM_MCP_BEARER_TOKEN'' = None
                           then ''CUSTOM_MCP_BEARER_TOKEN''
                           else ''AZURE_AI_MODEL_DEPLOYMENT_NAME'')))))"
proof -
  have custom: "mcp_custom_create env svc = mcp_custom_create env' svc"
    if "\<forall>k \<in> {''AZURE_AI_PROJECT_ENDPOINT'', ''CUSTOM_MCP_BEARER_TOKEN'',
                 ''AZURE_AI_MODEL_DEPLOYMENT_NAME''}. env k = env' k"
    using that by (simp add: mcp_custom_create_def custom_create_body_def os_environ_def)
  have existing: "mcp_microsoft_learn_existing env svc = mcp_microsoft_learn_existing env' svc"
    if "\<forall>k \<in> {''AZURE_AI_PROJECT_ENDPOINT'', ''AZURE_AI_AGENT_NAME''}. env k = env' k"
    using that by (simp add: mcp_microsoft_learn_existing_def os_environ_def)
  have no_endpoint:
    "mcp_custom_create env0 svc [] = ([], Inl (KeyError ''AZURE_AI_PROJECT_ENDPOINT'')) \<and>
     mcp_microsoft_learn_existing env0 svc [] =
       ([], Inl (KeyError ''AZURE_AI_PROJECT_ENDPOINT''))"
    if "env0 ''AZURE_AI_PROJECT_ENDPOINT'' = None"
    using that
    by (simp add: mcp_custom_create_def mcp_microsoft_learn_existing_def then_do_def
          local_step_def os_environ_def)
  have no_agent_name:
    "mcp_microsoft_learn_existing env1 svc [] = ([], Inl (KeyError ''AZURE_AI_AGENT_NAME''))"
    if "env1 ''AZURE_AI_PROJECT_ENDPOINT'' \<noteq> None \<and> env1 ''AZURE_AI_AGENT_NAME'' = None"
    using that
    by (auto simp add: mcp_microsoft_learn_existing_def then_do_def local_step_def
          os_environ_def)
  have no_request: "filter service_request (fst (mcp_custom_create env2 svc [])) = []"
    if "env2 ''AZURE_AI_PROJECT_ENDPOINT'' \<noteq> None \<and>
        (env2 ''CUSTOM_MCP_BEARER_TOKEN'' = None \<or>
         env2 ''AZURE_AI_MODEL_DEPLOYMENT_NAME'' = None)"
    using that by (auto simp add: script_defs split: run_splits)
  have outcome:
    "snd (mcp_custom_create env2 svc []) =
       Inl (KeyError (if env2 ''CUSTOM_MCP_BEARER_TOKEN'' = None
                      then ''CUSTOM_MCP_BEARER_TOKEN''
                      else ''AZURE_AI_MODEL_DEPLOYMENT_NAME'')) \<or>
     (\<exists>c e. Call c (Inl e) \<in> set (fst (mcp_custom_create env2 svc [])) \<and>
            snd (mcp_custom_create env2 svc []) = Inl e)"
    if "env2 ''AZURE_AI_PROJECT_ENDPOINT'' \<noteq> None \<and>
        (env2 ''CUSTOM_MCP_BEARER_TOKEN'' = None \<or>
         env2 ''AZURE_AI_MODEL_DEPLOYMENT_NAME'' = None)"
    using that by (auto simp add: script_defs split: run_splits)
  have credential_first:
    "\<exists>out rest. fst (mcp_custom_create env2 svc []) = Call NewCredential out # rest"
    if "env2 ''AZURE_AI_PROJECT_ENDPOINT'' = Some endpoint \<and>
        (env2 ''CUSTOM_MCP_BEARER_TOKEN'' = None \<or>
         env2 ''AZURE_AI_MODEL_DEPLOYMENT_NAME'' = None)"
    using that by (auto simp add: script_defs split: run_splits)
  have after_construction:
    "mcp_custom_create env2 svc [] =
       ([Call NewCredential (Inr (RCredential cred)),
         Call (NewProjectClient endpoint cred) (Inr (RProjectClient project_client)),
         Call (GetOpenAIClient project_client) (Inr (ROpenAIClient openai_client)),
         Exit OpenAIClientCtx, Exit ProjectClientCtx, Exit CredentialCtx],
        Inl (KeyError (if env2 ''CUSTOM_MCP_BEARER_TOKEN'' = None
                       then ''CUSTOM_MCP_BEARER_TOKEN''
                       else ''AZURE_AI_MODEL_DEPLOYMENT_NAME'')))"
    if "env2 ''AZURE_AI_PROJECT_ENDPOINT'' = Some endpoint \<and>
        (env2 ''CUSTOM_MCP_BEARER_TOKEN'' = None \<or>
         env2 ''AZURE_AI_MODEL_DEPLOYMENT_NAME'' = None)"
      and "DefaultAzureCredential svc = Inr cred \<and>
           AIProjectClient svc endpoint cred = Inr project_client \<and>
           get_openai_client svc project_client = Inr openai_client"
    using that by (auto simp add: script_defs split: run_splits)
  from custom existing no_endpoint no_agent_name no_request outcome credential_first
    after_construction
  show ?thesis by blast
qed

theorem configuration_keys_and_failure_order_witness:
  "mcp_custom_create full_environ (answering final_response) =
     mcp_custom_create (full_environ(''PROJECT_ENDPOINT'' \<mapsto> ''elsewhere''))
       (answering final_response) \<and>
   mcp_microsoft_learn_existing full_environ (answering final_response) =
     mcp_microsoft_learn_existing (full_environ(''PROJECT_ENDPOINT'' \<mapsto> ''elsewhere''))
       (answering final_response) \<and>
   mcp_custom_create spec_named_environ (answering final_response) [] =
     ([], Inl (KeyError ''AZURE_AI_PROJECT_ENDPOINT'')) \<and>
   mcp_microsoft_learn_existing spec_named_environ (answering final_response) [] =
     ([], Inl (KeyError ''AZURE_AI_PROJECT_ENDPOINT'')) \<and>
   mcp_microsoft_learn_existing endpoint_only_environ (answering final_response) [] =
     ([], Inl (KeyError ''AZURE_AI_AGENT_NAME'')) \<and>
   filter service_request
     (fst (mcp_custom_create endpoint_only_environ (answering final_response) [])) = [] \<and>
   mcp_custom_create endpoint_only_environ (answering final_response) [] =
     ([Call NewCredential (Inr (RCredential (Credential 0))),
       Call (NewProjectClient ''https://example.test'' (Credential 0))
         (Inr (RProjectClient (ProjectClient 0))),
       Call (GetOpenAIClient (ProjectClient 0)) (Inr (ROpenAIClient (OpenAIClient 0))),
       Exit OpenAIClientCtx, Exit ProjectClientCtx, Exit CredentialCtx],
      Inl (KeyError ''CUSTOM_MCP_BEARER_TOKEN''))"
  using configuration_keys_and_failure_order
          [where env = full_environ
             and env' = "full_environ(''PROJECT_ENDPOINT'' \<mapsto> ''elsewhere'')"
             and svc = "answering final_response"
             and ?env0.0 = spec_named_environ
             and ?env1.0 = endpoint_only_environ
             and ?env2.0 = endpoint_only_environ
             and endpoint = "''https://example.test''"
             and cred = "Credential 0"
             and project_client = "ProjectClient 0"
             and openai_client = "OpenAIClient 0"]
  by (simp add: full_environ_def spec_named_environ_def endpoint_only_environ_def
        answering_def)

text \<open>
  Claim C7, as stated, fails. In a run in which every collaborator answers, the prompt
  submission carries the conversation \<open>conv_1\<close> and the submission of the approvals
  carries no conversation.
\<close>

theorem resubmission_carries_no_conversation:
  "\<not> all_rounds_carry None
       (fst (mcp_custom_create full_environ
               (answering (scenario_response ''custom-mcp-bearer'')) [])) \<and>
   submitted_conversations
     (fst (mcp_custom_create full_environ
             (answering (scenario_response ''custom-mcp-bearer'')) [])) =
     [Some ''conv_1'', None]"
  by (simp add: scenario_custom_create_run)

text \<open>
  Claim C7, amended. A session creates at most one conversation. The prompt submission is
  made after the conversation was created and carries its identifier and no previous
  response; the submission of the approvals carries no conversation: it is tied to the
  session by \<^verbatim>\<open>previous_response_id\<close>, the identifier of the response that the prompt
  submission returned.
\<close>

theorem conversation_created_once_for_the_prompt:
  "length (filter is_conversations_create (fst (mcp_custom_create env svc []))) \<le> 1 \<and>
   rounds_linked None None (fst (mcp_custom_create env svc [])) \<and>
   length (filter is_conversations_create (fst (mcp_microsoft_learn_existing env svc [])))
     \<le> 1 \<and>
   rounds_linked None None (fst (mcp_microsoft_learn_existing env svc []))"
proof -
  have "length (filter is_conversations_create (fst (mcp_custom_create env svc []))) \<le> 1"
    by (simp add: script_defs Let_def split: run_splits)
  moreover have "rounds_linked None None (fst (mcp_custom_create env svc []))"
    by (simp add: script_defs Let_def split: run_splits)
  moreover have
    "length (filter is_conversations_create (fst (mcp_microsoft_learn_existing env svc []))) \<le> 1"
    by (simp add: script_defs Let_def split: run_splits)
  moreover have "rounds_linked None None (fst (mcp_microsoft_learn_existing env svc []))"
    by (simp add: script_defs Let_def split: run_splits)
  ultimately show ?thesis by simp
qed

theorem conversation_created_once_for_the_prompt_witness:
  "length (filter is_conversations_create
     (fst (mcp_custom_create full_environ
             (answering (scenario_response ''custom-mcp-bearer'')) []))) = 1 \<and>
   rounds_linked None None
     (fst (mcp_custom_create full_environ
             (answering (scenario_response ''custom-mcp-bearer'')) []))"
  using conversation_created_once_for_the_prompt
          [of full_environ "answering (scenario_response ''custom-mcp-bearer'')"]
  by (simp add: scenario_custom_create_run)

text \<open>
  Claim C8. In every run of either script, an exception raised by a collaborator (the
  credential, a client constructor, the agent service, the conversation service or either
  \<^verbatim>\<open>responses.create\<close> call) is the outcome of the run, unchanged, and no collaborator
  is called after it: nothing is caught and nothing is retried.
\<close>

theorem failures_propagate:
  "propagated (fst (mcp_custom_create env svc [])) (snd (mcp_custom_create env svc [])) \<and>
   propagated (fst (mcp_microsoft_learn_existing env svc []))
     (snd (mcp_microsoft_learn_existing env svc []))"
proof -
  have "propagated (fst (mcp_custom_create env svc [])) (snd (mcp_custom_create env svc []))"
    by (simp add: script_defs Let_def split: run_splits)
  moreover
  have "propagated (fst (mcp_microsoft_learn_existing env svc []))
          (snd (mcp_microsoft_learn_existing env svc []))"
    by (simp add: script_defs Let_def split: run_splits)
  ultimately show ?thesis by simp
qed

theorem failures_propagate_witness:
  "propagated
     (fst (mcp_microsoft_learn_existing full_environ
             (rejecting (scenario_response ''microsoft-learn-mcp'')) []))
     (snd (mcp_microsoft_learn_existing full_environ
             (rejecting (scenario_response ''microsoft-learn-mcp'')) [])) \<and>
   snd (mcp_microsoft_learn_existing full_environ
          (rejecting (scenario_response ''microsoft-learn-mcp'')) []) =
     Inl (RemoteCallError ''denied'')"
  using failures_propagate
          [of full_environ "rejecting (scenario_response ''microsoft-learn-mcp'')"]
  by (simp add: scenario_learn_existing_rejected_run)

end
